theory Spec2Isabelle
  imports Complex_Main
begin

section \<open>JavaScript values\<close>

text \<open>
  Both scripts are untyped JavaScript: every component field and every part of a response
  body is a JavaScript value. Numbers are IEEE doubles; each finite double is a rational,
  and the two zeros are identified (\<open>===\<close> does not tell them apart). An object is its
  identity (an allocation number) together with its own properties.
\<close>

datatype jsnum = Finite rat | PosInfinity | NegInfinity | NaN

datatype jsval =
    JUndefined
  | JNull
  | JBool bool
  | JNum jsnum
  | JStr string
  | JObj nat "(string \<times> jsval) list"

text \<open>The operator \<open>===\<close>: no coercion, \<open>NaN\<close> equal to nothing, objects by identity.\<close>

fun strict_eq :: "jsval \<Rightarrow> jsval \<Rightarrow> bool" where
  "strict_eq JUndefined JUndefined = True"
| "strict_eq JNull JNull = True"
| "strict_eq (JBool a) (JBool b) = (a = b)"
| "strict_eq (JNum a) (JNum b) = (a \<noteq> NaN \<and> b \<noteq> NaN \<and> a = b)"
| "strict_eq (JStr a) (JStr b) = (a = b)"
| "strict_eq (JObj i fs) (JObj j gs) = (i = j)"
| "strict_eq a b = False"

definition strict_neq :: "jsval \<Rightarrow> jsval \<Rightarrow> bool" where
  "strict_neq a b = (\<not> strict_eq a b)"

record response =
  data :: jsval

text \<open>
  What a \<open>catch\<close> callback can receive here: the rejection of an axios request, whose
  \<open>response\<close> property is present only if the server answered, or the \<open>TypeError\<close>
  raised by a property read on \<open>null\<close> or \<open>undefined\<close> inside a \<open>then\<close> callback.
\<close>

datatype js_error = TypeError | AxiosError "response option"

fun error_response :: "js_error \<Rightarrow> response option" where
  "error_response TypeError = None"
| "error_response (AxiosError r) = r"

text \<open>
  The property read \<open>v.k\<close>. It raises on \<open>null\<close> and \<open>undefined\<close>; on an object it
  yields the property or \<open>undefined\<close>; on a boolean, number or string it yields
  \<open>undefined\<close> for every name this program reads (none is a built-in property).
\<close>

fun get_prop :: "jsval \<Rightarrow> string \<Rightarrow> js_error + jsval" where
  "get_prop JUndefined k = Inl TypeError"
| "get_prop JNull k = Inl TypeError"
| "get_prop (JObj a fs) k = Inr (case map_of fs k of None \<Rightarrow> JUndefined | Some v \<Rightarrow> v)"
| "get_prop v k = Inr JUndefined"

section \<open>Requests, promises and the page\<close>

datatype http_method = GET | POST

record request =
  req_method :: http_method
  req_url :: string
  req_timeout :: "nat option"
  req_data :: "(string \<times> jsval) list"
  req_headers :: "(string \<times> string) list"

definition axios_get :: "string \<Rightarrow> nat option \<Rightarrow> request" where
  "axios_get u t =
     \<lparr>req_method = GET, req_url = u, req_timeout = t, req_data = [], req_headers = []\<rparr>"

datatype outcome = Fulfilled response | Rejected js_error

text \<open>
  A callback runs on the state and completes normally (\<open>None\<close>) or abruptly with a thrown
  error; the assignments made before a throw stay. \<open>p.then(f).catch(g)\<close>: \<open>f\<close> runs on
  fulfilment, \<open>g\<close> on the rejection of \<open>p\<close> and also on an error thrown by \<open>f\<close>.
\<close>

type_synonym 's completion = "js_error option \<times> 's"

definition then_catch ::
  "(response \<Rightarrow> 's \<Rightarrow> 's completion) \<Rightarrow> (js_error \<Rightarrow> 's \<Rightarrow> 's completion) \<Rightarrow>
   outcome \<Rightarrow> 's \<Rightarrow> 's completion" where
  "then_catch f g out s =
     (case out of
        Fulfilled r \<Rightarrow> (case f r s of (None, s') \<Rightarrow> (None, s') | (Some e, s') \<Rightarrow> g e s')
      | Rejected e \<Rightarrow> g e s)"

text \<open>
  What a page holds besides its component's data: the requests issued so far (oldest
  first), the timers installed by \<open>setInterval\<close> (period in milliseconds, and the request
  the timer's callback issues each time it fires), and \<open>window.location.href\<close>.
\<close>

record page =
  requests :: "request list"
  intervals :: "(nat \<times> request) list"
  location_href :: string

section \<open>The status/control panel\<close>

record status_page = page +
  computer_control :: jsval
  active_users :: jsval
  filament_status_message :: jsval

definition status_data :: "string \<Rightarrow> status_page" where
  "status_data here =
     \<lparr>requests = [], intervals = [], location_href = here,
      computer_control = JBool True, active_users = JNum (Finite 0),
      filament_status_message = JStr []\<rparr>"

definition filamentOn :: "status_page \<Rightarrow> status_page" where
  "filamentOn s = s\<lparr>requests := requests s @ [axios_get ''/filament-on'' None]\<rparr>"

definition filamentOn_then :: "response \<Rightarrow> status_page \<Rightarrow> status_page completion" where
  "filamentOn_then r s = (None, s\<lparr>filament_status_message := data r\<rparr>)"

definition filamentOn_catch :: "js_error \<Rightarrow> status_page \<Rightarrow> status_page completion" where
  "filamentOn_catch e s =
     (case error_response e of
        None \<Rightarrow> (None, s\<lparr>filament_status_message := JStr ''Failed to communicate with server.''\<rparr>)
      | Some r \<Rightarrow> (None, s\<lparr>filament_status_message := data r\<rparr>))"

definition filamentOn_settled :: "outcome \<Rightarrow> status_page \<Rightarrow> status_page completion" where
  "filamentOn_settled = then_catch filamentOn_then filamentOn_catch"

definition filamentOff :: "status_page \<Rightarrow> status_page" where
  "filamentOff s = s\<lparr>requests := requests s @ [axios_get ''/filament-off'' None]\<rparr>"

definition filamentOff_then :: "response \<Rightarrow> status_page \<Rightarrow> status_page completion" where
  "filamentOff_then r s = (None, s\<lparr>filament_status_message := data r\<rparr>)"

definition filamentOff_catch :: "js_error \<Rightarrow> status_page \<Rightarrow> status_page completion" where
  "filamentOff_catch e s =
     (case error_response e of
        None \<Rightarrow> (None, s\<lparr>filament_status_message := JStr ''Failed to communicate with server.''\<rparr>)
      | Some r \<Rightarrow> (None, s\<lparr>filament_status_message := data r\<rparr>))"

definition filamentOff_settled :: "outcome \<Rightarrow> status_page \<Rightarrow> status_page completion" where
  "filamentOff_settled = then_catch filamentOff_then filamentOff_catch"

text \<open>The \<open>methods\<close> object of the component: the actions the template can invoke.\<close>

definition status_methods :: "(string \<times> (status_page \<Rightarrow> status_page)) list" where
  "status_methods = [(''filamentOn'', filamentOn), (''filamentOff'', filamentOff)]"

definition status_poll_request :: request where
  "status_poll_request = axios_get ''/status'' (Some 450)"

definition status_mounted :: "status_page \<Rightarrow> status_page" where
  "status_mounted s = s\<lparr>intervals := intervals s @ [(500, status_poll_request)]\<rparr>"

definition status_poll_then :: "response \<Rightarrow> status_page \<Rightarrow> status_page completion" where
  "status_poll_then r s =
     (case get_prop (data r) ''computer_control'' of
        Inl e \<Rightarrow> (Some e, s)
      | Inr c \<Rightarrow>
          let s1 = s\<lparr>computer_control := c\<rparr> in
          (case get_prop (data r) ''filament_status_message'' of
             Inl e \<Rightarrow> (Some e, s1)
           | Inr m \<Rightarrow>
               let s2 = s1\<lparr>filament_status_message := m\<rparr> in
               (case get_prop (data r) ''active_users'' of
                  Inl e \<Rightarrow> (Some e, s2)
                | Inr a \<Rightarrow> (None, s2\<lparr>active_users := a\<rparr>))))"

definition status_poll_catch :: "js_error \<Rightarrow> status_page \<Rightarrow> status_page completion" where
  "status_poll_catch e s =
     (case error_response e of
        None \<Rightarrow> (None, s\<lparr>filament_status_message := JStr ''Failed to communicate with server.''\<rparr>)
      | Some r \<Rightarrow> (None, s\<lparr>filament_status_message := data r\<rparr>))"

definition status_poll_settled :: "outcome \<Rightarrow> status_page \<Rightarrow> status_page completion" where
  "status_poll_settled = then_catch status_poll_then status_poll_catch"

text \<open>A timer's callback: it issues the timer's request.\<close>

definition timer_fires :: "nat \<times> request \<Rightarrow> 'a page_scheme \<Rightarrow> 'a page_scheme" where
  "timer_fires t s = s\<lparr>requests := requests s @ [snd t]\<rparr>"

section \<open>The platform's numeric library\<close>

text \<open>
  The setup script calls the JavaScript engine's arithmetic (\<open>/\<close>, \<open>*\<close>, \<open>-\<close>),
  \<open>Math.pow\<close>, \<open>Number.prototype.toPrecision\<close> and \<open>parseFloat\<close>. They belong to the
  engine, not to the scripts, and are rounded (for \<open>Math.pow\<close> even
  implementation-approximated) double operations, so the scripts are modelled over an
  arbitrary platform, fixed only in its types. An arithmetic operation and \<open>Math.pow\<close>
  first coerce their operands to numbers; the coercion of an object can raise (an own
  \<open>toString\<close> property that is not callable), so each of them yields a number or an
  error. \<open>toPrecision(2)\<close> is applied to a number and yields a string. The script
  applies \<open>parseFloat\<close> to \<open>max_virtual_knob_value\<close> only, which it sets to a number or
  a string.
\<close>

record platform =
  js_div :: "jsval \<Rightarrow> jsval \<Rightarrow> js_error + jsnum"
  js_mul :: "jsval \<Rightarrow> jsval \<Rightarrow> js_error + jsnum"
  js_sub :: "jsval \<Rightarrow> jsval \<Rightarrow> js_error + jsnum"
  math_pow :: "jsval \<Rightarrow> jsval \<Rightarrow> js_error + jsnum"
  to_precision :: "jsnum \<Rightarrow> nat \<Rightarrow> string"
  parse_float :: "jsval \<Rightarrow> jsnum"

text \<open>Evaluation in sequence: the first error ends it.\<close>

definition and_then :: "js_error + 'a \<Rightarrow> ('a \<Rightarrow> js_error + 'b) \<Rightarrow> js_error + 'b" where
  "and_then m f = (case m of Inl e \<Rightarrow> Inl e | Inr x \<Rightarrow> f x)"

section \<open>The setup panel\<close>

record setup_page = page +
  max_virtual_knob_value :: jsval
  current_max_dac_value :: jsval
  error_message :: jsval
  warning_message :: jsval

definition setup_data :: "string \<Rightarrow> setup_page" where
  "setup_data here =
     \<lparr>requests = [], intervals = [], location_href = here,
      max_virtual_knob_value = JNum (Finite 0), current_max_dac_value = JNum (Finite 0),
      error_message = JStr [], warning_message = JStr []\<rparr>"

definition submitNewSettings :: "platform \<Rightarrow> setup_page \<Rightarrow> setup_page" where
  "submitNewSettings P s =
     (let formData =
            [(''max_virtual_knob_value'', JNum (parse_float P (max_virtual_knob_value s)))]
      in s\<lparr>requests := requests s @
            [\<lparr>req_method = POST, req_url = ''/setup'', req_timeout = None,
              req_data = formData,
              req_headers = [(''Content-Type'', ''multipart/form-data'')]\<rparr>]\<rparr>)"

definition submit_then :: "response \<Rightarrow> setup_page \<Rightarrow> setup_page completion" where
  "submit_then r s = (None, s\<lparr>location_href := ''/''\<rparr>)"

definition submit_catch :: "js_error \<Rightarrow> setup_page \<Rightarrow> setup_page completion" where
  "submit_catch e s =
     (case error_response e of
        None \<Rightarrow> (None, s\<lparr>error_message := JStr ''Failed to communicate with server.''\<rparr>)
      | Some r \<Rightarrow> (None, s\<lparr>error_message := data r\<rparr>))"

definition submit_settled :: "outcome \<Rightarrow> setup_page \<Rightarrow> setup_page completion" where
  "submit_settled = then_catch submit_then submit_catch"

definition load_request :: request where
  "load_request = axios_get ''/status'' (Some 1000)"

definition setup_poll_request :: request where
  "setup_poll_request = axios_get ''/status'' (Some 450)"

definition setup_mounted :: "setup_page \<Rightarrow> setup_page" where
  "setup_mounted s =
     (let s1 = s\<lparr>requests := requests s @ [load_request]\<rparr>
      in s1\<lparr>intervals := intervals s1 @ [(500, setup_poll_request)]\<rparr>)"

text \<open>
  \<open>((max_dac_value / (Math.pow(2, dac_bits) - 1)) * 10.0).toPrecision(2)\<close>, on the two
  values read from the response, in the order the engine evaluates it: the power (which
  coerces \<open>dac_bits\<close>), the difference, the quotient (which coerces \<open>max_dac_value\<close>),
  the product, the formatting. An error raised by a coercion ends the evaluation.
\<close>

definition knob_text :: "platform \<Rightarrow> jsval \<Rightarrow> jsval \<Rightarrow> js_error + string" where
  "knob_text P max_dac bits =
     and_then (math_pow P (JNum (Finite 2)) bits) (\<lambda>p.
     and_then (js_sub P (JNum p) (JNum (Finite 1))) (\<lambda>d.
     and_then (js_div P max_dac (JNum d)) (\<lambda>q.
     and_then (js_mul P (JNum q) (JNum (Finite 10))) (\<lambda>m.
     Inr (to_precision P m 2)))))"

definition load_then :: "platform \<Rightarrow> response \<Rightarrow> setup_page \<Rightarrow> setup_page completion" where
  "load_then P r s =
     (case get_prop (data r) ''max_dac_value'' of
        Inl e \<Rightarrow> (Some e, s)
      | Inr max_dac \<Rightarrow>
          (case get_prop (data r) ''dac_bits'' of
             Inl e \<Rightarrow> (Some e, s)
           | Inr bits \<Rightarrow>
               (case knob_text P max_dac bits of
                  Inl e \<Rightarrow> (Some e, s)
                | Inr k \<Rightarrow>
                    let s1 = s\<lparr>max_virtual_knob_value := JStr k\<rparr> in
                    (case get_prop (data r) ''max_dac_value'' of
                       Inl e \<Rightarrow> (Some e, s1)
                     | Inr v \<Rightarrow> (None, s1\<lparr>current_max_dac_value := v\<rparr>)))))"

definition load_catch :: "js_error \<Rightarrow> setup_page \<Rightarrow> setup_page completion" where
  "load_catch e s =
     (case error_response e of
        None \<Rightarrow> (None, s\<lparr>error_message := JStr ''Failed to communicate with server.''\<rparr>)
      | Some r \<Rightarrow> (None, s\<lparr>error_message := data r\<rparr>))"

definition load_settled :: "platform \<Rightarrow> outcome \<Rightarrow> setup_page \<Rightarrow> setup_page completion" where
  "load_settled P = then_catch (load_then P) load_catch"

definition warning_text :: string where
  "warning_text =
     ''Warning: Someone else on the system changed the max virtual knob value setting while you were on this page.''"

definition setup_poll_then :: "response \<Rightarrow> setup_page \<Rightarrow> setup_page completion" where
  "setup_poll_then r s =
     (case get_prop (data r) ''max_dac_value'' of
        Inl e \<Rightarrow> (Some e, s)
      | Inr v \<Rightarrow>
          if strict_neq (current_max_dac_value s) v
          then (None, s\<lparr>warning_message := JStr warning_text\<rparr>)
          else (None, s))"

definition setup_poll_catch :: "js_error \<Rightarrow> setup_page \<Rightarrow> setup_page completion" where
  "setup_poll_catch e s =
     (case error_response e of
        None \<Rightarrow> (None, s\<lparr>error_message := JStr ''Failed to communicate with server.''\<rparr>)
      | Some r \<Rightarrow> (None, s\<lparr>error_message := data r\<rparr>))"

definition setup_poll_settled :: "outcome \<Rightarrow> setup_page \<Rightarrow> setup_page completion" where
  "setup_poll_settled = then_catch setup_poll_then setup_poll_catch"

text \<open>
  Everything that can happen on the setup page: the \<open>mounted\<close> hook, an installed timer
  firing (by its position among the installed timers; a position with no timer is no
  event), the form invoking \<open>submitNewSettings\<close>, and each of the three requests
  settling.
\<close>

datatype setup_event =
    Mounted
  | TimerFired nat
  | SubmitInvoked
  | LoadSettled outcome
  | PollSettled outcome
  | SubmitSettled outcome

fun setup_step :: "platform \<Rightarrow> setup_page \<Rightarrow> setup_event \<Rightarrow> setup_page" where
  "setup_step P s Mounted = setup_mounted s"
| "setup_step P s (TimerFired i) =
     (if i < length (intervals s) then timer_fires (intervals s ! i) s else s)"
| "setup_step P s SubmitInvoked = submitNewSettings P s"
| "setup_step P s (LoadSettled out) = snd (load_settled P out s)"
| "setup_step P s (PollSettled out) = snd (setup_poll_settled out s)"
| "setup_step P s (SubmitSettled out) = snd (submit_settled out s)"

definition setup_run :: "platform \<Rightarrow> setup_page \<Rightarrow> setup_event list \<Rightarrow> setup_page" where
  "setup_run P s evs = foldl (setup_step P) s evs"

section \<open>A reference platform\<close>

text \<open>
  One platform, to run the scripts on concrete inputs. Numbers are computed exactly and
  then rounded to the nearest double (ties to even, overflow to infinity, gradual
  underflow), as IEEE 754 arithmetic does. Its limits: zero has no sign (a zero divisor
  counts as \<open>+0\<close>); \<open>Math.pow\<close> is the rounded exact power at an integer exponent and
  \<open>NaN\<close> at a fractional exponent of a positive base, where the engine returns an
  approximation of an irrational number; a string is read as a plain decimal literal
  (sign, digits, fraction) without surrounding blanks or exponent part; an object is
  coerced as a plain object is: to \<open>NaN\<close>, through the inherited \<open>toString\<close>, unless it
  has an own \<open>toString\<close> property, which in a parsed body is never callable, so that the
  coercion raises a \<open>TypeError\<close>.
\<close>

definition pow_int :: "rat \<Rightarrow> int \<Rightarrow> rat" where
  "pow_int b e = (if 0 \<le> e then b ^ nat e else 1 / b ^ nat (- e))"

text \<open>The exponent \<open>e\<close> with \<open>b ^ e \<le> x < b ^ (e + 1)\<close>, for \<open>x > 0\<close>, by at most \<open>k\<close> steps.\<close>

fun exponent_of :: "nat \<Rightarrow> rat \<Rightarrow> rat \<Rightarrow> int \<Rightarrow> int" where
  "exponent_of 0 b x e = e"
| "exponent_of (Suc k) b x e =
     (if b \<le> x then exponent_of k b (x / b) (e + 1)
      else if x < 1 then exponent_of k b (x * b) (e - 1)
      else e)"

definition round_half_even :: "rat \<Rightarrow> int" where
  "round_half_even x =
     (let f = \<lfloor>x\<rfloor>; r = x - of_int f
      in if r < 1 / 2 then f else if 1 / 2 < r then f + 1 else if even f then f else f + 1)"

definition round_double :: "rat \<Rightarrow> jsnum" where
  "round_double x =
     (if x = 0 then Finite 0
      else
        let a = \<bar>x\<bar>;
            q = max (exponent_of 2200 2 a 0 - 52) (- 1074);
            v = of_int (round_half_even (a / pow_int 2 q)) * pow_int 2 q
        in if (2 ^ 32) ^ 32 \<le> v then (if 0 < x then PosInfinity else NegInfinity)
           else Finite (if 0 < x then v else - v))"

fun num_sign :: "jsnum \<Rightarrow> int" where
  "num_sign (Finite x) = (if 0 < x then 1 else if x < 0 then - 1 else 0)"
| "num_sign PosInfinity = 1"
| "num_sign NegInfinity = - 1"
| "num_sign NaN = 0"

definition signed_infinity :: "int \<Rightarrow> jsnum" where
  "signed_infinity sg = (if sg = 0 then NaN else if 0 < sg then PosInfinity else NegInfinity)"

fun num_sub :: "jsnum \<Rightarrow> jsnum \<Rightarrow> jsnum" where
  "num_sub NaN b = NaN"
| "num_sub a NaN = NaN"
| "num_sub (Finite x) (Finite y) = round_double (x - y)"
| "num_sub (Finite x) PosInfinity = NegInfinity"
| "num_sub (Finite x) NegInfinity = PosInfinity"
| "num_sub PosInfinity PosInfinity = NaN"
| "num_sub NegInfinity NegInfinity = NaN"
| "num_sub PosInfinity b = PosInfinity"
| "num_sub NegInfinity b = NegInfinity"

fun num_mul :: "jsnum \<Rightarrow> jsnum \<Rightarrow> jsnum" where
  "num_mul NaN b = NaN"
| "num_mul a NaN = NaN"
| "num_mul (Finite x) (Finite y) = round_double (x * y)"
| "num_mul a b = signed_infinity (num_sign a * num_sign b)"

fun num_div :: "jsnum \<Rightarrow> jsnum \<Rightarrow> jsnum" where
  "num_div NaN b = NaN"
| "num_div a NaN = NaN"
| "num_div (Finite x) (Finite y) =
     (if y = 0 then signed_infinity (num_sign (Finite x)) else round_double (x / y))"
| "num_div (Finite x) b = Finite 0"
| "num_div a (Finite y) = (if y < 0 then signed_infinity (- num_sign a) else a)"
| "num_div a b = NaN"

fun num_pow :: "jsnum \<Rightarrow> jsnum \<Rightarrow> jsnum" where
  "num_pow b NaN = NaN"
| "num_pow b (Finite e) =
     (if e = 0 then Finite 1
      else case b of
          NaN \<Rightarrow> NaN
        | PosInfinity \<Rightarrow> (if 0 < e then PosInfinity else Finite 0)
        | NegInfinity \<Rightarrow>
            (if 0 < e then (if of_int \<lfloor>e\<rfloor> = e \<and> odd \<lfloor>e\<rfloor> then NegInfinity else PosInfinity)
             else Finite 0)
        | Finite x \<Rightarrow>
            (if x = 0 then (if 0 < e then Finite 0 else PosInfinity)
             else if of_int \<lfloor>e\<rfloor> = e then round_double (pow_int x \<lfloor>e\<rfloor>)
             else NaN))"
| "num_pow NaN e = NaN"
| "num_pow (Finite x) PosInfinity =
     (if 1 < \<bar>x\<bar> then PosInfinity else if \<bar>x\<bar> = 1 then NaN else Finite 0)"
| "num_pow (Finite x) NegInfinity =
     (if 1 < \<bar>x\<bar> then Finite 0 else if \<bar>x\<bar> = 1 then NaN else PosInfinity)"
| "num_pow b PosInfinity = PosInfinity"
| "num_pow b NegInfinity = Finite 0"

definition digit_value :: "char \<Rightarrow> nat option" where
  "digit_value c =
     (if c \<in> set ''0123456789'' then Some (of_char c - 48) else None)"

text \<open>The digits at the front of a string: their value, their number, and the rest.\<close>

fun read_digits :: "string \<Rightarrow> nat \<Rightarrow> nat \<Rightarrow> nat \<times> nat \<times> string" where
  "read_digits [] v n = (v, n, [])"
| "read_digits (c # cs) v n =
     (case digit_value c of
        None \<Rightarrow> (v, n, c # cs)
      | Some d \<Rightarrow> read_digits cs (10 * v + d) (n + 1))"

definition read_unsigned :: "string \<Rightarrow> (rat \<times> string) option" where
  "read_unsigned s =
     (case read_digits s 0 0 of
        (ip, ni, rest) \<Rightarrow>
          (case rest of
             [] \<Rightarrow> (if ni = 0 then None else Some (of_nat ip, rest))
           | c # cs \<Rightarrow>
               if c = CHR ''.''
               then (case read_digits cs 0 0 of
                       (fp, nf, rest') \<Rightarrow>
                         if ni + nf = 0 then None
                         else Some (of_nat ip + of_nat fp / 10 ^ nf, rest'))
               else if ni = 0 then None else Some (of_nat ip, rest)))"

definition read_decimal :: "string \<Rightarrow> (rat \<times> string) option" where
  "read_decimal s =
     (case s of
        [] \<Rightarrow> None
      | c # cs \<Rightarrow>
          if c = CHR ''-'' then map_option (\<lambda>(x, rest). (- x, rest)) (read_unsigned cs)
          else if c = CHR ''+'' then read_unsigned cs
          else read_unsigned s)"

fun to_number :: "jsval \<Rightarrow> js_error + jsnum" where
  "to_number JUndefined = Inr NaN"
| "to_number JNull = Inr (Finite 0)"
| "to_number (JBool b) = Inr (Finite (if b then 1 else 0))"
| "to_number (JNum n) = Inr n"
| "to_number (JStr s) =
     Inr (if s = [] then Finite 0
          else case read_decimal s of
              None \<Rightarrow> NaN
            | Some (x, rest) \<Rightarrow> if rest = [] then round_double x else NaN)"
| "to_number (JObj a fs) =
     (case map_of fs ''toString'' of None \<Rightarrow> Inr NaN | Some v \<Rightarrow> Inl TypeError)"

definition coerced :: "(jsnum \<Rightarrow> jsnum \<Rightarrow> jsnum) \<Rightarrow> jsval \<Rightarrow> jsval \<Rightarrow> js_error + jsnum" where
  "coerced f a b = and_then (to_number a) (\<lambda>x. and_then (to_number b) (\<lambda>y. Inr (f x y)))"

fun parse_float_decimal :: "jsval \<Rightarrow> jsnum" where
  "parse_float_decimal (JNum n) = n"
| "parse_float_decimal (JStr s) =
     (case read_decimal s of None \<Rightarrow> NaN | Some (x, rest) \<Rightarrow> round_double x)"
| "parse_float_decimal v = NaN"

definition digit_char :: "nat \<Rightarrow> char" where
  "digit_char d = ''0123456789'' ! d"

fun digits :: "nat \<Rightarrow> nat \<Rightarrow> string" where
  "digits 0 n = []"
| "digits (Suc k) n = digits k (n div 10) @ [digit_char (n mod 10)]"

definition precision_digits :: "rat \<Rightarrow> nat \<Rightarrow> string" where
  "precision_digits x p =
     (if x = 0 then ''0'' @ (if 1 < p then ''.'' @ replicate (p - 1) (CHR ''0'') else [])
      else
        let e0 = exponent_of 400 10 x 0;
            n0 = \<lfloor>x / pow_int 10 (e0 - int p + 1) + 1 / 2\<rfloor>;
            n = (if n0 = 10 ^ p then 10 ^ (p - 1) else n0);
            e = (if n0 = 10 ^ p then e0 + 1 else e0);
            m = digits p (nat n)
        in if e < - 6 \<or> int p \<le> e
           then take 1 m @ (if 1 < p then ''.'' @ drop 1 m else []) @ ''e''
                @ (if e < 0 then ''-'' else ''+'')
                @ (let d = nat \<bar>e\<bar> in
                   digits (if d < 10 then 1 else if d < 100 then 2 else 3) d)
           else if e = int p - 1 then m
           else if 0 \<le> e then take (nat (e + 1)) m @ ''.'' @ drop (nat (e + 1)) m
           else ''0.'' @ replicate (nat (- (e + 1))) (CHR ''0'') @ m)"

fun number_to_precision :: "jsnum \<Rightarrow> nat \<Rightarrow> string" where
  "number_to_precision NaN p = ''NaN''"
| "number_to_precision PosInfinity p = ''Infinity''"
| "number_to_precision NegInfinity p = ''-Infinity''"
| "number_to_precision (Finite x) p =
     (if x < 0 then ''-'' else []) @ precision_digits \<bar>x\<bar> p"

definition reference_platform :: platform where
  "reference_platform =
     \<lparr>js_div = coerced num_div,
      js_mul = coerced num_mul,
      js_sub = coerced num_sub,
      math_pow = coerced num_pow,
      to_precision = number_to_precision,
      parse_float = parse_float_decimal\<rparr>"

section \<open>Notions used to state the properties\<close>

text \<open>A value on which every property read raises.\<close>

definition nullish :: "jsval \<Rightarrow> bool" where
  "nullish v = (v = JNull \<or> v = JUndefined)"

text \<open>The value of the property read \<open>v.k\<close> where the read does not raise.\<close>

definition field_of :: "jsval \<Rightarrow> string \<Rightarrow> jsval" where
  "field_of v k = (case get_prop v k of Inl e \<Rightarrow> JUndefined | Inr x \<Rightarrow> x)"

text \<open>
  The generic error rule, in the specification's words: the fixed text when the error
  carries no server response, the body of the server's response otherwise.
\<close>

definition generic_failure_message :: "js_error \<Rightarrow> jsval" where
  "generic_failure_message e =
     (case error_response e of
        None \<Rightarrow> JStr ''Failed to communicate with server.''
      | Some r \<Rightarrow> data r)"

fun is_load_settled :: "setup_event \<Rightarrow> bool" where
  "is_load_settled (LoadSettled out) = True"
| "is_load_settled ev = False"

text \<open>The values on which \<open>parseFloat\<close> cannot raise.\<close>

fun number_or_string :: "jsval \<Rightarrow> bool" where
  "number_or_string (JNum n) = True"
| "number_or_string (JStr s) = True"
| "number_or_string v = False"

text \<open>Every installed timer issues the setup panel's poll request.\<close>

definition only_poll_timers :: "setup_page \<Rightarrow> bool" where
  "only_poll_timers s = list_all (\<lambda>t. snd t = setup_poll_request) (intervals s)"

text \<open>Concrete inputs: status bodies of an 8-bit converter, at full and at half scale.\<close>

definition full_scale_status :: response where
  "full_scale_status =
     \<lparr>data = JObj 1
        [(''computer_control'', JBool False),
         (''filament_status_message'', JStr ''Filament on.''),
         (''active_users'', JNum (Finite 2)),
         (''max_dac_value'', JNum (Finite 255)),
         (''dac_bits'', JNum (Finite 8))]\<rparr>"

definition half_scale_status :: response where
  "half_scale_status =
     \<lparr>data = JObj 2
        [(''computer_control'', JBool True),
         (''filament_status_message'', JStr ''Filament off.''),
         (''active_users'', JNum (Finite 1)),
         (''max_dac_value'', JNum (Finite 128)),
         (''dac_bits'', JNum (Finite 8))]\<rparr>"

text \<open>
  A body whose \<open>max_dac_value\<close> is an object with an own \<open>toString\<close> property, as the
  JSON text \<open>{"max_dac_value": {"toString": 1}, "dac_bits": 8}\<close> parses.
\<close>

definition uncoercible_status :: response where
  "uncoercible_status =
     \<lparr>data = JObj 3
        [(''max_dac_value'', JObj 4 [(''toString'', JNum (Finite 1))]),
         (''dac_bits'', JNum (Finite 8))]\<rparr>"

section \<open>Promise chains and property reads\<close>

lemma then_catch_Rejected: "then_catch f g (Rejected e) s = g e s"
  by (simp add: then_catch_def)

lemma then_catch_Fulfilled:
  "then_catch f g (Fulfilled r) s =
     (case f r s of (None, s') \<Rightarrow> (None, s') | (Some e, s') \<Rightarrow> g e s')"
  by (simp add: then_catch_def)

lemma get_prop_readable: "\<not> nullish v \<Longrightarrow> get_prop v k = Inr (field_of v k)"
  by (cases v) (simp_all add: nullish_def field_of_def)

lemma get_prop_nullish: "nullish v \<Longrightarrow> get_prop v k = Inl TypeError"
  by (cases v) (simp_all add: nullish_def)

section \<open>The handlers of the status/control panel\<close>

lemma status_poll_rejected:
  "status_poll_settled (Rejected e) s =
     (None, s\<lparr>filament_status_message := generic_failure_message e\<rparr>)"
  by (simp add: status_poll_settled_def then_catch_Rejected status_poll_catch_def
      generic_failure_message_def split: option.split)

lemma status_poll_fulfilled:
  assumes "\<not> nullish (data r)"
  shows "status_poll_settled (Fulfilled r) s =
     (None, s\<lparr>computer_control := field_of (data r) ''computer_control'',
               filament_status_message := field_of (data r) ''filament_status_message'',
               active_users := field_of (data r) ''active_users''\<rparr>)"
  by (simp add: status_poll_settled_def then_catch_Fulfilled status_poll_then_def
      get_prop_readable [OF assms])

lemma status_poll_thrown:
  assumes "nullish (data r)"
  shows "status_poll_settled (Fulfilled r) s =
     (None, s\<lparr>filament_status_message := JStr ''Failed to communicate with server.''\<rparr>)"
  by (simp add: status_poll_settled_def then_catch_Fulfilled status_poll_then_def
      get_prop_nullish [OF assms] status_poll_catch_def)

lemma filamentOn_fulfilled:
  "filamentOn_settled (Fulfilled r) s = (None, s\<lparr>filament_status_message := data r\<rparr>)"
  by (simp add: filamentOn_settled_def then_catch_Fulfilled filamentOn_then_def)

lemma filamentOff_fulfilled:
  "filamentOff_settled (Fulfilled r) s = (None, s\<lparr>filament_status_message := data r\<rparr>)"
  by (simp add: filamentOff_settled_def then_catch_Fulfilled filamentOff_then_def)

lemma filamentOn_rejected:
  "filamentOn_settled (Rejected e) s =
     (None, s\<lparr>filament_status_message := generic_failure_message e\<rparr>)"
  by (simp add: filamentOn_settled_def then_catch_Rejected filamentOn_catch_def
      generic_failure_message_def split: option.split)

lemma filamentOff_rejected:
  "filamentOff_settled (Rejected e) s =
     (None, s\<lparr>filament_status_message := generic_failure_message e\<rparr>)"
  by (simp add: filamentOff_settled_def then_catch_Rejected filamentOff_catch_def
      generic_failure_message_def split: option.split)

section \<open>The handlers of the setup panel\<close>

lemma load_rejected:
  "load_settled P (Rejected e) s = (None, s\<lparr>error_message := generic_failure_message e\<rparr>)"
  by (simp add: load_settled_def then_catch_Rejected load_catch_def
      generic_failure_message_def split: option.split)

lemma load_fulfilled:
  assumes "\<not> nullish (data r)"
    and "knob_text P (field_of (data r) ''max_dac_value'')
           (field_of (data r) ''dac_bits'') = Inr k"
  shows "load_settled P (Fulfilled r) s =
     (None, s\<lparr>max_virtual_knob_value := JStr k,
               current_max_dac_value := field_of (data r) ''max_dac_value''\<rparr>)"
  by (simp add: load_settled_def then_catch_Fulfilled load_then_def
      get_prop_readable [OF assms(1)] assms(2))

lemma load_coercion_thrown:
  assumes "\<not> nullish (data r)"
    and "knob_text P (field_of (data r) ''max_dac_value'')
           (field_of (data r) ''dac_bits'') = Inl e"
  shows "load_settled P (Fulfilled r) s =
     (None, s\<lparr>error_message := generic_failure_message e\<rparr>)"
  by (simp add: load_settled_def then_catch_Fulfilled load_then_def
      get_prop_readable [OF assms(1)] assms(2) load_catch_def generic_failure_message_def
      split: option.split)

lemma load_thrown:
  assumes "nullish (data r)"
  shows "load_settled P (Fulfilled r) s =
     (None, s\<lparr>error_message := JStr ''Failed to communicate with server.''\<rparr>)"
  by (simp add: load_settled_def then_catch_Fulfilled load_then_def
      get_prop_nullish [OF assms] load_catch_def)

lemma setup_poll_rejected:
  "setup_poll_settled (Rejected e) s =
     (None, s\<lparr>error_message := generic_failure_message e\<rparr>)"
  by (simp add: setup_poll_settled_def then_catch_Rejected setup_poll_catch_def
      generic_failure_message_def split: option.split)

lemma setup_poll_fulfilled:
  assumes "\<not> nullish (data r)"
  shows "setup_poll_settled (Fulfilled r) s =
     (None, if strict_neq (current_max_dac_value s) (field_of (data r) ''max_dac_value'')
            then s\<lparr>warning_message := JStr warning_text\<rparr> else s)"
  by (simp add: setup_poll_settled_def then_catch_Fulfilled setup_poll_then_def
      get_prop_readable [OF assms])

lemma setup_poll_thrown:
  assumes "nullish (data r)"
  shows "setup_poll_settled (Fulfilled r) s =
     (None, s\<lparr>error_message := JStr ''Failed to communicate with server.''\<rparr>)"
  by (simp add: setup_poll_settled_def then_catch_Fulfilled setup_poll_then_def
      get_prop_nullish [OF assms] setup_poll_catch_def)

lemma submit_fulfilled:
  "submit_settled (Fulfilled r) s = (None, s\<lparr>location_href := ''/''\<rparr>)"
  by (simp add: submit_settled_def then_catch_Fulfilled submit_then_def)

lemma submit_rejected:
  "submit_settled (Rejected e) s = (None, s\<lparr>error_message := generic_failure_message e\<rparr>)"
  by (simp add: submit_settled_def then_catch_Rejected submit_catch_def
      generic_failure_message_def split: option.split)

lemma setup_mounted_eq:
  "setup_mounted s =
     s\<lparr>requests := requests s @ [load_request],
       intervals := intervals s @ [(500, setup_poll_request)]\<rparr>"
  by (simp add: setup_mounted_def)

section \<open>The concrete inputs\<close>

lemma full_scale_status_readable: "\<not> nullish (data full_scale_status)"
  by (simp add: full_scale_status_def nullish_def)

lemma full_scale_status_fields:
  "field_of (data full_scale_status) ''computer_control'' = JBool False"
  "field_of (data full_scale_status) ''filament_status_message'' = JStr ''Filament on.''"
  "field_of (data full_scale_status) ''active_users'' = JNum (Finite 2)"
  "field_of (data full_scale_status) ''max_dac_value'' = JNum (Finite 255)"
  "field_of (data full_scale_status) ''dac_bits'' = JNum (Finite 8)"
  by (simp_all add: full_scale_status_def field_of_def)

lemma half_scale_status_readable: "\<not> nullish (data half_scale_status)"
  by (simp add: half_scale_status_def nullish_def)

lemma half_scale_status_max_dac_value:
  "field_of (data half_scale_status) ''max_dac_value'' = JNum (Finite 128)"
  by (simp add: half_scale_status_def field_of_def)

lemma null_body_nullish: "nullish (data \<lparr>data = JNull\<rparr>)"
  by (simp add: nullish_def)

lemma knob_text_full_scale:
  "knob_text reference_platform (JNum (Finite 255)) (JNum (Finite 8)) = Inr ''10''"
  by code_simp

lemma full_scale_status_knob_text:
  "knob_text reference_platform (field_of (data full_scale_status) ''max_dac_value'')
     (field_of (data full_scale_status) ''dac_bits'') = Inr ''10''"
  by (simp add: full_scale_status_fields knob_text_full_scale)

lemma uncoercible_status_readable: "\<not> nullish (data uncoercible_status)"
  by (simp add: uncoercible_status_def nullish_def)

lemma uncoercible_status_knob_text:
  "knob_text reference_platform (field_of (data uncoercible_status) ''max_dac_value'')
     (field_of (data uncoercible_status) ''dac_bits'') = Inl TypeError"
  by (simp add: uncoercible_status_def field_of_def) code_simp

lemma status_mounted_eq:
  "status_mounted s =
     s\<lparr>intervals := intervals s @
         [(500, \<lparr>req_method = GET, req_url = ''/status'', req_timeout = Some 450,
                 req_data = [], req_headers = []\<rparr>)]\<rparr>"
  by (simp add: status_mounted_def status_poll_request_def axios_get_def)

lemma load_request_eq:
  "load_request =
     \<lparr>req_method = GET, req_url = ''/status'', req_timeout = Some 1000,
      req_data = [], req_headers = []\<rparr>"
  by (simp add: load_request_def axios_get_def)

lemma setup_poll_request_eq:
  "setup_poll_request =
     \<lparr>req_method = GET, req_url = ''/status'', req_timeout = Some 450,
      req_data = [], req_headers = []\<rparr>"
  by (simp add: setup_poll_request_def axios_get_def)

section \<open>What each setup handler leaves alone\<close>

text \<open>A settled load is one of three assignments, whatever the outcome.\<close>

lemma load_settled_cases:
  obtains m where "load_settled P out s = (None, s\<lparr>error_message := m\<rparr>)"
  | k v where "load_settled P out s =
                 (None, s\<lparr>max_virtual_knob_value := k, current_max_dac_value := v\<rparr>)"
proof (cases out)
  case (Rejected e)
  then show ?thesis using that(1) by (simp add: load_rejected)
next
  case (Fulfilled r)
  show ?thesis
  proof (cases "nullish (data r)")
    case True
    then show ?thesis using that(1) Fulfilled by (simp add: load_thrown)
  next
    case False
    show ?thesis
    proof (cases "knob_text P (field_of (data r) ''max_dac_value'')
                    (field_of (data r) ''dac_bits'')")
      case (Inl e)
      from load_coercion_thrown [OF False Inl] that(1) Fulfilled show ?thesis by simp
    next
      case (Inr k)
      from load_fulfilled [OF False Inr] that(2) Fulfilled show ?thesis by simp
    qed
  qed
qed

lemma setup_poll_settled_cases:
  obtains m where "setup_poll_settled out s = (None, s\<lparr>error_message := m\<rparr>)"
  | "setup_poll_settled out s = (None, s\<lparr>warning_message := JStr warning_text\<rparr>)"
  | "setup_poll_settled out s = (None, s)"
proof (cases out)
  case (Rejected e)
  then show ?thesis using that(1) by (simp add: setup_poll_rejected)
next
  case (Fulfilled r)
  show ?thesis
  proof (cases "nullish (data r)")
    case True
    then show ?thesis using that(1) Fulfilled by (simp add: setup_poll_thrown)
  next
    case False
    then show ?thesis using that(2,3) Fulfilled
      by (cases "strict_neq (current_max_dac_value s) (field_of (data r) ''max_dac_value'')")
        (simp_all add: setup_poll_fulfilled)
  qed
qed

lemma submit_settled_cases:
  obtains m where "submit_settled out s = (None, s\<lparr>error_message := m\<rparr>)"
  | "submit_settled out s = (None, s\<lparr>location_href := ''/''\<rparr>)"
  by (cases out) (simp_all add: submit_fulfilled submit_rejected)

lemma setup_poll_settled_frame:
  "max_virtual_knob_value (snd (setup_poll_settled out s)) = max_virtual_knob_value s"
  "current_max_dac_value (snd (setup_poll_settled out s)) = current_max_dac_value s"
  "requests (snd (setup_poll_settled out s)) = requests s"
  "intervals (snd (setup_poll_settled out s)) = intervals s"
  "location_href (snd (setup_poll_settled out s)) = location_href s"
  by (rule setup_poll_settled_cases [of out s]; simp)+

lemma submit_settled_frame:
  "max_virtual_knob_value (snd (submit_settled out s)) = max_virtual_knob_value s"
  "current_max_dac_value (snd (submit_settled out s)) = current_max_dac_value s"
  "warning_message (snd (submit_settled out s)) = warning_message s"
  "requests (snd (submit_settled out s)) = requests s"
  "intervals (snd (submit_settled out s)) = intervals s"
  by (rule submit_settled_cases [of out s]; simp)+

lemma load_settled_frame:
  "warning_message (snd (load_settled P out s)) = warning_message s"
  "requests (snd (load_settled P out s)) = requests s"
  "intervals (snd (load_settled P out s)) = intervals s"
  "location_href (snd (load_settled P out s)) = location_href s"
  by (rule load_settled_cases [of P out s]; simp)+

lemma setup_poll_settled_warning:
  "warning_message (snd (setup_poll_settled out s)) = warning_message s
   \<or> warning_message (snd (setup_poll_settled out s)) = JStr warning_text"
  by (rule setup_poll_settled_cases [of out s]; simp)

lemma setup_step_warning:
  "warning_message (setup_step P s ev) = warning_message s
   \<or> warning_message (setup_step P s ev) = JStr warning_text"
  by (cases ev)
    (simp_all add: setup_mounted_eq timer_fires_def submitNewSettings_def
      load_settled_frame submit_settled_frame setup_poll_settled_warning)

lemma setup_step_stored_dac_value:
  "\<not> is_load_settled ev \<Longrightarrow>
   current_max_dac_value (setup_step P s ev) = current_max_dac_value s"
  by (cases ev)
    (simp_all add: setup_mounted_eq timer_fires_def submitNewSettings_def
      setup_poll_settled_frame submit_settled_frame)

lemma setup_run_Nil: "setup_run P s [] = s"
  by (simp add: setup_run_def)

lemma setup_run_Cons: "setup_run P s (ev # evs) = setup_run P (setup_step P s ev) evs"
  by (simp add: setup_run_def)

lemma setup_run_warning_latched:
  "warning_message s = JStr warning_text \<Longrightarrow>
   warning_message (setup_run P s evs) = JStr warning_text"
proof (induction evs arbitrary: s)
  case Nil
  then show ?case by (simp add: setup_run_Nil)
next
  case (Cons ev evs)
  from Cons.prems setup_step_warning [of P s ev]
  have "warning_message (setup_step P s ev) = JStr warning_text" by auto
  then show ?case by (simp add: setup_run_Cons Cons.IH)
qed

lemma setup_run_warning_values:
  "warning_message s = JStr [] \<or> warning_message s = JStr warning_text \<Longrightarrow>
   warning_message (setup_run P s evs) = JStr []
   \<or> warning_message (setup_run P s evs) = JStr warning_text"
proof (induction evs arbitrary: s)
  case Nil
  then show ?case by (simp add: setup_run_Nil)
next
  case (Cons ev evs)
  from Cons.prems setup_step_warning [of P s ev]
  have "warning_message (setup_step P s ev) = JStr []
        \<or> warning_message (setup_step P s ev) = JStr warning_text" by auto
  then show ?case unfolding setup_run_Cons by (rule Cons.IH)
qed

lemma setup_run_stored_dac_value:
  "\<not> list_ex is_load_settled evs \<Longrightarrow>
   current_max_dac_value (setup_run P s evs) = current_max_dac_value s"
proof (induction evs arbitrary: s)
  case Nil
  then show ?case by (simp add: setup_run_Nil)
next
  case (Cons ev evs)
  then show ?case by (simp add: setup_run_Cons setup_step_stored_dac_value)
qed

section \<open>The load request is issued by the mounted hook only\<close>

lemma load_request_neq_poll: "load_request \<noteq> setup_poll_request"
  by (simp add: load_request_eq setup_poll_request_eq)

lemma setup_step_load_requests:
  assumes "ev \<noteq> Mounted" and "only_poll_timers s"
  shows "count_list (requests (setup_step P s ev)) load_request
           = count_list (requests s) load_request
         \<and> only_poll_timers (setup_step P s ev)"
proof (cases ev)
  case Mounted
  with assms(1) show ?thesis by simp
next
  case (TimerFired i)
  show ?thesis
  proof (cases "i < length (intervals s)")
    case True
    with assms(2) have "snd (intervals s ! i) = setup_poll_request"
      by (simp add: only_poll_timers_def list_all_length)
    with True TimerFired assms(2) load_request_neq_poll show ?thesis
      by (simp add: timer_fires_def only_poll_timers_def)
  next
    case False
    with TimerFired assms(2) show ?thesis by simp
  qed
next
  case SubmitInvoked
  with assms(2) show ?thesis
    by (simp add: submitNewSettings_def load_request_eq only_poll_timers_def)
next
  case (LoadSettled out)
  with assms(2) show ?thesis by (simp add: load_settled_frame only_poll_timers_def)
next
  case (PollSettled out)
  with assms(2) show ?thesis by (simp add: setup_poll_settled_frame only_poll_timers_def)
next
  case (SubmitSettled out)
  with assms(2) show ?thesis by (simp add: submit_settled_frame only_poll_timers_def)
qed

lemma setup_run_load_requests:
  "Mounted \<notin> set evs \<Longrightarrow> only_poll_timers s \<Longrightarrow>
   count_list (requests (setup_run P s evs)) load_request
     = count_list (requests s) load_request"
proof (induction evs arbitrary: s)
  case Nil
  then show ?case by (simp add: setup_run_Nil)
next
  case (Cons ev evs)
  from Cons.prems have "ev \<noteq> Mounted" and "Mounted \<notin> set evs" by auto
  with Cons.prems(2) Cons.IH [of "setup_step P s ev"]
    setup_step_load_requests [of ev s P]
  show ?case by (simp add: setup_run_Cons)
qed

lemma mounted_once_load_requests:
  "Mounted \<notin> set evs \<Longrightarrow>
   count_list (requests (setup_run P (setup_mounted (setup_data here)) evs)) load_request = 1"
proof -
  assume a: "Mounted \<notin> set evs"
  have "only_poll_timers (setup_mounted (setup_data here))"
    by (simp add: only_poll_timers_def setup_mounted_eq setup_data_def)
  from setup_run_load_requests [OF a this]
  show ?thesis by (simp add: setup_mounted_eq setup_data_def)
qed

section \<open>The request log only grows\<close>

lemma setup_step_requests_prefix:
  "take (length (requests s)) (requests (setup_step P s ev)) = requests s"
  by (cases ev)
    (simp_all add: setup_mounted_eq timer_fires_def submitNewSettings_def
      load_settled_frame setup_poll_settled_frame submit_settled_frame)

lemma setup_step_requests_length:
  "length (requests s) \<le> length (requests (setup_step P s ev))"
  by (cases ev)
    (simp_all add: setup_mounted_eq timer_fires_def submitNewSettings_def
      load_settled_frame setup_poll_settled_frame submit_settled_frame)

lemma setup_run_requests_prefix:
  "take (length (requests s)) (requests (setup_run P s evs)) = requests s"
proof (induction evs arbitrary: s)
  case Nil
  then show ?case by (simp add: setup_run_Nil)
next
  case (Cons ev evs)
  let ?s' = "setup_step P s ev"
  let ?end = "requests (setup_run P ?s' evs)"
  have "take (length (requests s)) ?end
          = take (length (requests s)) (take (length (requests ?s')) ?end)"
    using setup_step_requests_length [of s P ev] by (simp add: min_def)
  also have "\<dots> = take (length (requests s)) (requests ?s')"
    by (simp only: Cons.IH)
  also have "\<dots> = requests s"
    by (rule setup_step_requests_prefix)
  finally show ?case by (simp add: setup_run_Cons)
qed

lemma mounted_first_request:
  "take 1 (requests (setup_run P (setup_mounted (setup_data here)) evs)) = [load_request]"
  using setup_run_requests_prefix [of "setup_mounted (setup_data here)" P evs]
  by (simp add: setup_mounted_eq setup_data_def)

section \<open>The reference platform on the concrete inputs\<close>

lemma reference_pow_8:
  "math_pow reference_platform (JNum (Finite 2)) (JNum (Finite 8)) = Inr (Finite 256)"
  by code_simp

lemma reference_sub_256:
  "js_sub reference_platform (JNum (Finite 256)) (JNum (Finite 1)) = Inr (Finite 255)"
  by code_simp

lemma reference_div_255:
  "js_div reference_platform (JNum (Finite 255)) (JNum (Finite 255)) = Inr (Finite 1)"
  by code_simp

lemma reference_mul_10:
  "js_mul reference_platform (JNum (Finite 1)) (JNum (Finite 10)) = Inr (Finite 10)"
  by code_simp

lemma reference_precision_10:
  "to_precision reference_platform (Finite 10) 2 = ''10''"
  by code_simp

lemma knob_text_steps:
  assumes "math_pow P (JNum (Finite 2)) b = Inr p"
    and "js_sub P (JNum p) (JNum (Finite 1)) = Inr d"
    and "js_div P a (JNum d) = Inr q"
    and "js_mul P (JNum q) (JNum (Finite 10)) = Inr m"
  shows "knob_text P a b = Inr (to_precision P m 2)"
  by (simp add: knob_text_def and_then_def assms)

lemma load_uncoercible:
  "load_settled reference_platform (Fulfilled uncoercible_status) s =
     (None, s\<lparr>error_message := JStr ''Failed to communicate with server.''\<rparr>)"
  by (simp add: load_coercion_thrown [OF uncoercible_status_readable
        uncoercible_status_knob_text] generic_failure_message_def)

section \<open>The configured value is a number or a string\<close>

text \<open>
  \<open>submitNewSettings\<close> applies \<open>parseFloat\<close> to \<open>max_virtual_knob_value\<close>. In every
  state the scripts reach from the initial data that field holds the initial number or
  the string the load stored, so the conversion to a string inside \<open>parseFloat\<close> has
  nothing to raise on.
\<close>

lemma load_settled_knob_value:
  "max_virtual_knob_value (snd (load_settled P out s)) = max_virtual_knob_value s
   \<or> number_or_string (max_virtual_knob_value (snd (load_settled P out s)))"
proof (cases out)
  case (Rejected e)
  then show ?thesis by (simp add: load_rejected)
next
  case (Fulfilled r)
  show ?thesis
  proof (cases "nullish (data r)")
    case True
    with Fulfilled show ?thesis by (simp add: load_thrown)
  next
    case False
    show ?thesis
    proof (cases "knob_text P (field_of (data r) ''max_dac_value'')
                    (field_of (data r) ''dac_bits'')")
      case (Inl e)
      with False Fulfilled show ?thesis by (simp add: load_coercion_thrown)
    next
      case (Inr k)
      with False Fulfilled show ?thesis by (simp add: load_fulfilled)
    qed
  qed
qed

lemma setup_step_knob_value:
  "number_or_string (max_virtual_knob_value s) \<Longrightarrow>
   number_or_string (max_virtual_knob_value (setup_step P s ev))"
proof (cases ev)
  case (LoadSettled out)
  assume "number_or_string (max_virtual_knob_value s)"
  with LoadSettled load_settled_knob_value [of P out s] show ?thesis by auto
qed (simp_all add: setup_mounted_eq timer_fires_def submitNewSettings_def
      setup_poll_settled_frame submit_settled_frame)

lemma setup_run_knob_value:
  "number_or_string (max_virtual_knob_value s) \<Longrightarrow>
   number_or_string (max_virtual_knob_value (setup_run P s evs))"
  by (induction evs arbitrary: s)
    (simp_all add: setup_run_Nil setup_run_Cons setup_step_knob_value)

lemma reachable_knob_value:
  "number_or_string (max_virtual_knob_value (setup_run P (setup_data here) evs))"
  by (rule setup_run_knob_value) (simp add: setup_data_def)

section \<open>On-demand actions, failures and the settings POST\<close>

text \<open>
  C6. The status/control panel offers exactly two on-demand actions, \<open>filamentOn\<close> and
  \<open>filamentOff\<close>. Each issues one GET, of \<open>/filament-on\<close> and \<open>/filament-off\<close>
  respectively, and on every successful response sets \<open>filament_status_message\<close> to the
  response body and changes no other field.
\<close>

theorem filament_actions:
  "map fst status_methods = [''filamentOn'', ''filamentOff'']
   \<and> map snd status_methods = [filamentOn, filamentOff]
   \<and> filamentOn s = s\<lparr>requests := requests s @
         [\<lparr>req_method = GET, req_url = ''/filament-on'', req_timeout = None,
           req_data = [], req_headers = []\<rparr>]\<rparr>
   \<and> filamentOff s = s\<lparr>requests := requests s @
         [\<lparr>req_method = GET, req_url = ''/filament-off'', req_timeout = None,
           req_data = [], req_headers = []\<rparr>]\<rparr>
   \<and> filamentOn_settled (Fulfilled r) s = (None, s\<lparr>filament_status_message := data r\<rparr>)
   \<and> filamentOff_settled (Fulfilled r) s = (None, s\<lparr>filament_status_message := data r\<rparr>)"
  by (simp add: status_methods_def filamentOn_def filamentOff_def axios_get_def
      filamentOn_fulfilled filamentOff_fulfilled)

text \<open>
  C3. Failure handling is the same in all six operations (status poll, filament on,
  filament off, setup load, setup poll, settings POST): the bound message field
  (\<open>filament_status_message\<close> in the status panel, \<open>error_message\<close> in the setup panel)
  is set by the generic error rule, and nothing else happens: no request is issued, no
  other field changes, and the chain completes normally.
\<close>

theorem failure_handling_uniform:
  "filamentOn_settled (Rejected e) s =
     (None, s\<lparr>filament_status_message := generic_failure_message e\<rparr>)
   \<and> filamentOff_settled (Rejected e) s =
     (None, s\<lparr>filament_status_message := generic_failure_message e\<rparr>)
   \<and> status_poll_settled (Rejected e) s =
     (None, s\<lparr>filament_status_message := generic_failure_message e\<rparr>)
   \<and> load_settled P (Rejected e) t =
     (None, t\<lparr>error_message := generic_failure_message e\<rparr>)
   \<and> setup_poll_settled (Rejected e) t =
     (None, t\<lparr>error_message := generic_failure_message e\<rparr>)
   \<and> submit_settled (Rejected e) t =
     (None, t\<lparr>error_message := generic_failure_message e\<rparr>)
   \<and> generic_failure_message (AxiosError None) = JStr ''Failed to communicate with server.''
   \<and> generic_failure_message (AxiosError (Some r)) = data r"
  by (simp add: filamentOn_rejected filamentOff_rejected status_poll_rejected
      load_rejected setup_poll_rejected submit_rejected generic_failure_message_def)

text \<open>
  C8. \<open>submitNewSettings\<close> issues exactly one request, a POST to \<open>/setup\<close> whose form
  data has the single field \<open>max_virtual_knob_value\<close> holding \<open>parseFloat\<close> of the
  configured value. On success neither \<open>error_message\<close> nor \<open>warning_message\<close> changes
  (the page navigates to \<open>/\<close>); on failure \<open>error_message\<close> is set by the generic
  error rule.
\<close>

theorem submitNewSettings_post:
  "submitNewSettings P s = s\<lparr>requests := requests s @
       [\<lparr>req_method = POST, req_url = ''/setup'', req_timeout = None,
         req_data = [(''max_virtual_knob_value'',
                      JNum (parse_float P (max_virtual_knob_value s)))],
         req_headers = [(''Content-Type'', ''multipart/form-data'')]\<rparr>]\<rparr>
   \<and> submit_settled (Fulfilled r) s = (None, s\<lparr>location_href := ''/''\<rparr>)
   \<and> error_message (snd (submit_settled (Fulfilled r) s)) = error_message s
   \<and> warning_message (snd (submit_settled (Fulfilled r) s)) = warning_message s
   \<and> submit_settled (Rejected e) s = (None, s\<lparr>error_message := generic_failure_message e\<rparr>)"
  by (simp add: submitNewSettings_def submit_fulfilled submit_rejected)

section \<open>Status polling\<close>

text \<open>
  C1, as the code has it. The status/control panel's \<open>mounted\<close> hook installs one timer
  of period 500 ms whose callback issues a GET of \<open>/status\<close> with a 450 ms timeout. On
  every successful response whose body is neither \<open>null\<close> nor \<open>undefined\<close>, exactly
  three fields change: \<open>computer_control\<close>, \<open>filament_status_message\<close> and
  \<open>active_users\<close> are each set to the property of that name of the response body.
\<close>

theorem status_poll_updates:
  assumes "\<not> nullish (data r)"
  shows "status_mounted s =
       s\<lparr>intervals := intervals s @
           [(500, \<lparr>req_method = GET, req_url = ''/status'', req_timeout = Some 450,
                   req_data = [], req_headers = []\<rparr>)]\<rparr>
     \<and> timer_fires (500, q) s = s\<lparr>requests := requests s @ [q]\<rparr>
     \<and> status_poll_settled (Fulfilled r) s =
         (None, s\<lparr>computer_control := field_of (data r) ''computer_control'',
                   filament_status_message := field_of (data r) ''filament_status_message'',
                   active_users := field_of (data r) ''active_users''\<rparr>)"
  by (simp add: status_mounted_eq timer_fires_def status_poll_fulfilled [OF assms])

theorem status_poll_updates_witness:
  "\<not> nullish (data full_scale_status)
   \<and> status_poll_settled (Fulfilled full_scale_status) (status_data ''/'') =
       (None, \<lparr>requests = [], intervals = [], location_href = ''/'',
               computer_control = JBool False, active_users = JNum (Finite 2),
               filament_status_message = JStr ''Filament on.''\<rparr>)"
  using status_poll_updates [OF full_scale_status_readable, of "status_data ''/''"]
  by (simp add: full_scale_status_readable full_scale_status_fields status_data_def)

text \<open>
  A successful response with the body \<open>null\<close>: reading its first property raises, the
  failure callback runs, and the only field written is the message, with the failure
  text.
\<close>

theorem status_poll_null_body:
  "get_prop (data \<lparr>data = JNull\<rparr>) ''computer_control'' = Inl TypeError
   \<and> status_poll_settled (Fulfilled \<lparr>data = JNull\<rparr>) (status_data ''/'') =
       (None, \<lparr>requests = [], intervals = [], location_href = ''/'',
               computer_control = JBool True, active_users = JNum (Finite 0),
               filament_status_message = JStr ''Failed to communicate with server.''\<rparr>)"
  by (simp add: status_poll_thrown [OF null_body_nullish] status_data_def)

section \<open>Setup polling\<close>

text \<open>
  C2, as the code has it. The setup panel's \<open>mounted\<close> hook installs one timer of
  period 500 ms whose callback issues a GET of \<open>/status\<close>. For every successful poll
  response whose body is neither \<open>null\<close> nor \<open>undefined\<close>: if the body's
  \<open>max_dac_value\<close> is not strictly equal to the stored \<open>current_max_dac_value\<close>,
  \<open>warning_message\<close> is set to the fixed warning text and nothing else changes; if it is
  strictly equal, nothing changes.
\<close>

theorem setup_poll_detects_change:
  assumes "\<not> nullish (data r)"
  shows "intervals (setup_mounted s) =
       intervals s @
         [(500, \<lparr>req_method = GET, req_url = ''/status'', req_timeout = Some 450,
                 req_data = [], req_headers = []\<rparr>)]
     \<and> timer_fires (500, q) s = s\<lparr>requests := requests s @ [q]\<rparr>
     \<and> setup_poll_settled (Fulfilled r) s =
         (None,
          if strict_eq (current_max_dac_value s) (field_of (data r) ''max_dac_value'')
          then s
          else s\<lparr>warning_message :=
                   JStr ''Warning: Someone else on the system changed the max virtual knob value setting while you were on this page.''\<rparr>)"
  by (simp add: setup_mounted_eq setup_poll_request_eq timer_fires_def
      setup_poll_fulfilled [OF assms] strict_neq_def warning_text_def)

theorem setup_poll_detects_change_witness:
  "\<not> nullish (data full_scale_status)
   \<and> setup_poll_settled (Fulfilled full_scale_status) (setup_data ''/setup'') =
       (None, \<lparr>requests = [], intervals = [], location_href = ''/setup'',
               max_virtual_knob_value = JNum (Finite 0),
               current_max_dac_value = JNum (Finite 0),
               error_message = JStr [],
               warning_message = JStr warning_text\<rparr>)
   \<and> setup_poll_settled (Fulfilled full_scale_status)
         ((setup_data ''/setup'')\<lparr>current_max_dac_value := JNum (Finite 255)\<rparr>) =
       (None, (setup_data ''/setup'')\<lparr>current_max_dac_value := JNum (Finite 255)\<rparr>)"
  using setup_poll_detects_change [OF full_scale_status_readable, of "setup_data ''/setup''"]
    setup_poll_detects_change [OF full_scale_status_readable,
      of "(setup_data ''/setup'')\<lparr>current_max_dac_value := JNum (Finite 255)\<rparr>"]
  by (simp add: full_scale_status_readable full_scale_status_fields setup_data_def
      warning_text_def)

text \<open>
  A successful poll response with the body \<open>null\<close>: no comparison takes place; the read
  raises and the failure callback writes \<open>error_message\<close>.
\<close>

theorem setup_poll_null_body:
  "get_prop (data \<lparr>data = JNull\<rparr>) ''max_dac_value'' = Inl TypeError
   \<and> setup_poll_settled (Fulfilled \<lparr>data = JNull\<rparr>) (setup_data ''/setup'') =
       (None, \<lparr>requests = [], intervals = [], location_href = ''/setup'',
               max_virtual_knob_value = JNum (Finite 0),
               current_max_dac_value = JNum (Finite 0),
               error_message = JStr ''Failed to communicate with server.'',
               warning_message = JStr []\<rparr>)"
  by (simp add: setup_poll_thrown [OF null_body_nullish] setup_data_def)

section \<open>What a successful response leaves in the fields\<close>

text \<open>
  C4, as the code has it. The filament actions copy the body of every successful
  response into \<open>filament_status_message\<close>, and the settings POST copies nothing of it.
  For a successful response whose body is neither \<open>null\<close> nor \<open>undefined\<close>, the status
  poll copies three properties of the body unchanged and the setup poll copies nothing.
  For such a response, and when the arithmetic on its \<open>dac_bits\<close> and \<open>max_dac_value\<close>
  raises no error, the setup load copies \<open>max_dac_value\<close> unchanged into
  \<open>current_max_dac_value\<close>, but what it stores into \<open>max_virtual_knob_value\<close> is not a
  value of the response: it is the string that \<open>toPrecision(2)\<close> makes of
  \<open>(max_dac_value / (2 ^ dac_bits - 1)) * 10\<close>.
\<close>

theorem success_results_copied:
  "filamentOn_settled (Fulfilled r) s = (None, s\<lparr>filament_status_message := data r\<rparr>)
   \<and> filamentOff_settled (Fulfilled r) s = (None, s\<lparr>filament_status_message := data r\<rparr>)
   \<and> submit_settled (Fulfilled r) t = (None, t\<lparr>location_href := ''/''\<rparr>)
   \<and> (\<not> nullish (data r) \<longrightarrow>
        status_poll_settled (Fulfilled r) s =
          (None, s\<lparr>computer_control := field_of (data r) ''computer_control'',
                    filament_status_message := field_of (data r) ''filament_status_message'',
                    active_users := field_of (data r) ''active_users''\<rparr>)
        \<and> setup_poll_settled (Fulfilled r) t =
          (None,
           if strict_eq (current_max_dac_value t) (field_of (data r) ''max_dac_value'')
           then t else t\<lparr>warning_message := JStr warning_text\<rparr>))
   \<and> (\<not> nullish (data r)
        \<and> math_pow P (JNum (Finite 2)) (field_of (data r) ''dac_bits'') = Inr p
        \<and> js_sub P (JNum p) (JNum (Finite 1)) = Inr d
        \<and> js_div P (field_of (data r) ''max_dac_value'') (JNum d) = Inr q
        \<and> js_mul P (JNum q) (JNum (Finite 10)) = Inr m \<longrightarrow>
        load_settled P (Fulfilled r) t =
          (None, t\<lparr>max_virtual_knob_value := JStr (to_precision P m 2),
                    current_max_dac_value := field_of (data r) ''max_dac_value''\<rparr>))"
proof (intro conjI impI)
  show "filamentOn_settled (Fulfilled r) s = (None, s\<lparr>filament_status_message := data r\<rparr>)"
    by (rule filamentOn_fulfilled)
  show "filamentOff_settled (Fulfilled r) s = (None, s\<lparr>filament_status_message := data r\<rparr>)"
    by (rule filamentOff_fulfilled)
  show "submit_settled (Fulfilled r) t = (None, t\<lparr>location_href := ''/''\<rparr>)"
    by (rule submit_fulfilled)
next
  assume "\<not> nullish (data r)"
  then show "status_poll_settled (Fulfilled r) s =
          (None, s\<lparr>computer_control := field_of (data r) ''computer_control'',
                    filament_status_message := field_of (data r) ''filament_status_message'',
                    active_users := field_of (data r) ''active_users''\<rparr>)"
    by (rule status_poll_fulfilled)
next
  assume "\<not> nullish (data r)"
  then show "setup_poll_settled (Fulfilled r) t =
          (None,
           if strict_eq (current_max_dac_value t) (field_of (data r) ''max_dac_value'')
           then t else t\<lparr>warning_message := JStr warning_text\<rparr>)"
    by (simp add: setup_poll_fulfilled strict_neq_def)
next
  assume a: "\<not> nullish (data r)
        \<and> math_pow P (JNum (Finite 2)) (field_of (data r) ''dac_bits'') = Inr p
        \<and> js_sub P (JNum p) (JNum (Finite 1)) = Inr d
        \<and> js_div P (field_of (data r) ''max_dac_value'') (JNum d) = Inr q
        \<and> js_mul P (JNum q) (JNum (Finite 10)) = Inr m"
  then have "knob_text P (field_of (data r) ''max_dac_value'')
               (field_of (data r) ''dac_bits'') = Inr (to_precision P m 2)"
    by (simp add: knob_text_steps [of P "field_of (data r) ''dac_bits''" p d
          "field_of (data r) ''max_dac_value''" q m])
  with a show "load_settled P (Fulfilled r) t =
          (None, t\<lparr>max_virtual_knob_value := JStr (to_precision P m 2),
                    current_max_dac_value := field_of (data r) ''max_dac_value''\<rparr>)"
    by (intro load_fulfilled) simp_all
qed

theorem success_results_copied_witness:
  "\<not> nullish (data full_scale_status)
   \<and> math_pow reference_platform (JNum (Finite 2)) (JNum (Finite 8)) = Inr (Finite 256)
   \<and> js_sub reference_platform (JNum (Finite 256)) (JNum (Finite 1)) = Inr (Finite 255)
   \<and> js_div reference_platform (JNum (Finite 255)) (JNum (Finite 255)) = Inr (Finite 1)
   \<and> js_mul reference_platform (JNum (Finite 1)) (JNum (Finite 10)) = Inr (Finite 10)
   \<and> load_settled reference_platform (Fulfilled full_scale_status) (setup_data ''/setup'') =
       (None, \<lparr>requests = [], intervals = [], location_href = ''/setup'',
               max_virtual_knob_value = JStr ''10'',
               current_max_dac_value = JNum (Finite 255),
               error_message = JStr [], warning_message = JStr []\<rparr>)
   \<and> status_poll_settled (Fulfilled full_scale_status) (status_data ''/'') =
       (None, \<lparr>requests = [], intervals = [], location_href = ''/'',
               computer_control = JBool False, active_users = JNum (Finite 2),
               filament_status_message = JStr ''Filament on.''\<rparr>)"
  using success_results_copied [of full_scale_status "status_data ''/''"
      "setup_data ''/setup''" reference_platform "Finite 256" "Finite 255" "Finite 1"
      "Finite 10"]
  by (simp add: full_scale_status_readable full_scale_status_fields reference_pow_8
      reference_sub_256 reference_div_255 reference_mul_10 reference_precision_10
      setup_data_def status_data_def)

text \<open>
  The server sends \<open>max_dac_value = 255\<close> and \<open>dac_bits = 8\<close>; the value stored into
  \<open>max_virtual_knob_value\<close> is the string \<open>10\<close>, which is neither of them. And where
  the body is \<open>null\<close>, or its \<open>max_dac_value\<close> cannot be coerced to a number, nothing of
  the response is stored: \<open>error_message\<close> receives the failure text.
\<close>

theorem load_knob_value_transformed:
  "get_prop (data full_scale_status) ''max_dac_value'' = Inr (JNum (Finite 255))
   \<and> get_prop (data full_scale_status) ''dac_bits'' = Inr (JNum (Finite 8))
   \<and> get_prop (data full_scale_status) ''max_virtual_knob_value'' = Inr JUndefined
   \<and> max_virtual_knob_value
         (snd (load_settled reference_platform (Fulfilled full_scale_status)
                 (setup_data ''/setup''))) = JStr ''10''
   \<and> load_settled reference_platform (Fulfilled uncoercible_status) (setup_data ''/setup'') =
       (None, \<lparr>requests = [], intervals = [], location_href = ''/setup'',
               max_virtual_knob_value = JNum (Finite 0),
               current_max_dac_value = JNum (Finite 0),
               error_message = JStr ''Failed to communicate with server.'',
               warning_message = JStr []\<rparr>)
   \<and> load_settled reference_platform (Fulfilled \<lparr>data = JNull\<rparr>) (setup_data ''/setup'') =
       (None, \<lparr>requests = [], intervals = [], location_href = ''/setup'',
               max_virtual_knob_value = JNum (Finite 0),
               current_max_dac_value = JNum (Finite 0),
               error_message = JStr ''Failed to communicate with server.'',
               warning_message = JStr []\<rparr>)"
  by (simp add: load_fulfilled [OF full_scale_status_readable full_scale_status_knob_text]
      load_uncoercible load_thrown [OF null_body_nullish] setup_data_def)
    (simp add: full_scale_status_def)

section \<open>Polling overwrites and reconciles nothing\<close>

text \<open>
  C5, as the code has it. In the setup panel every settled poll, fulfilled or rejected,
  leaves \<open>max_virtual_knob_value\<close> and \<open>current_max_dac_value\<close> unchanged: at most
  \<open>warning_message\<close> and \<open>error_message\<close> are written. In the status/control panel
  every successful poll response whose body is neither \<open>null\<close> nor \<open>undefined\<close>
  overwrites the three display fields with the values of that response, whatever they
  held before; a rejected poll overwrites \<open>filament_status_message\<close> only.
\<close>

theorem poll_overwrites:
  "snd (setup_poll_settled out t) =
       t\<lparr>warning_message := warning_message (snd (setup_poll_settled out t)),
         error_message := error_message (snd (setup_poll_settled out t))\<rparr>
   \<and> max_virtual_knob_value (snd (setup_poll_settled out t)) = max_virtual_knob_value t
   \<and> current_max_dac_value (snd (setup_poll_settled out t)) = current_max_dac_value t
   \<and> (\<not> nullish (data r) \<longrightarrow>
        status_poll_settled (Fulfilled r) s =
          (None, s\<lparr>computer_control := field_of (data r) ''computer_control'',
                    filament_status_message := field_of (data r) ''filament_status_message'',
                    active_users := field_of (data r) ''active_users''\<rparr>)
        \<and> computer_control (snd (status_poll_settled (Fulfilled r) s))
            = computer_control (snd (status_poll_settled (Fulfilled r) s'))
        \<and> filament_status_message (snd (status_poll_settled (Fulfilled r) s))
            = filament_status_message (snd (status_poll_settled (Fulfilled r) s'))
        \<and> active_users (snd (status_poll_settled (Fulfilled r) s))
            = active_users (snd (status_poll_settled (Fulfilled r) s')))
   \<and> status_poll_settled (Rejected e) s =
       (None, s\<lparr>filament_status_message := generic_failure_message e\<rparr>)"
proof -
  have "snd (setup_poll_settled out t) =
       t\<lparr>warning_message := warning_message (snd (setup_poll_settled out t)),
         error_message := error_message (snd (setup_poll_settled out t))\<rparr>"
    by (rule setup_poll_settled_cases [of out t]; simp)
  then show ?thesis
    by (simp add: setup_poll_settled_frame status_poll_fulfilled status_poll_rejected)
qed

theorem poll_overwrites_witness:
  "\<not> nullish (data full_scale_status)
   \<and> status_poll_settled (Fulfilled full_scale_status)
         ((status_data ''/'')\<lparr>computer_control := JBool True, active_users := JNum (Finite 7),
                               filament_status_message := JStr ''stale''\<rparr>) =
       (None, \<lparr>requests = [], intervals = [], location_href = ''/'',
               computer_control = JBool False, active_users = JNum (Finite 2),
               filament_status_message = JStr ''Filament on.''\<rparr>)"
  using poll_overwrites [of "Rejected TypeError" "setup_data ''/setup''" full_scale_status
      "(status_data ''/'')\<lparr>computer_control := JBool True, active_users := JNum (Finite 7),
                             filament_status_message := JStr ''stale''\<rparr>"
      "status_data ''/''" TypeError]
  by (simp add: full_scale_status_readable full_scale_status_fields status_data_def)

text \<open>
  Two poll responses after which \<open>computer_control\<close> and \<open>active_users\<close> still hold
  their prior values: the server's error response, and a successful response with the
  body \<open>null\<close>.
\<close>

theorem status_poll_not_overwritten:
  "status_poll_settled
       (Rejected (AxiosError (Some \<lparr>data = JStr ''Internal Server Error''\<rparr>)))
       (status_data ''/'') =
     (None, \<lparr>requests = [], intervals = [], location_href = ''/'',
             computer_control = JBool True, active_users = JNum (Finite 0),
             filament_status_message = JStr ''Internal Server Error''\<rparr>)
   \<and> status_poll_settled (Fulfilled \<lparr>data = JNull\<rparr>) (status_data ''/'') =
     (None, \<lparr>requests = [], intervals = [], location_href = ''/'',
             computer_control = JBool True, active_users = JNum (Finite 0),
             filament_status_message = JStr ''Failed to communicate with server.''\<rparr>)"
  by (simp add: status_poll_rejected generic_failure_message_def
      status_poll_thrown [OF null_body_nullish] status_data_def)

section \<open>The load on mount\<close>

text \<open>
  C7, as the code has it. On load, the setup panel's \<open>mounted\<close> hook issues exactly one
  one-time GET of \<open>/status\<close>. It is the first request of the page, so it comes before
  every request of the periodic polling, and as long as the hook does not run again it
  stays the only one of its kind. On a successful response whose body is neither \<open>null\<close>
  nor \<open>undefined\<close>, and when the arithmetic on the body's \<open>max_dac_value\<close> and
  \<open>dac_bits\<close> raises no error, the load sets \<open>max_virtual_knob_value\<close> (to the text
  derived from these two) and \<open>current_max_dac_value\<close> (to the body's
  \<open>max_dac_value\<close>), and nothing else; the values it stores do not depend on the state
  the polls left.
\<close>

theorem load_on_mount:
  assumes "\<not> nullish (data r)"
    and "knob_text P (field_of (data r) ''max_dac_value'')
           (field_of (data r) ''dac_bits'') = Inr k"
    and "Mounted \<notin> set evs"
  shows "setup_mounted s =
       s\<lparr>requests := requests s @
           [\<lparr>req_method = GET, req_url = ''/status'', req_timeout = Some 1000,
             req_data = [], req_headers = []\<rparr>],
         intervals := intervals s @
           [(500, \<lparr>req_method = GET, req_url = ''/status'', req_timeout = Some 450,
                   req_data = [], req_headers = []\<rparr>)]\<rparr>
     \<and> take 1 (requests (setup_run P (setup_mounted (setup_data here)) evs))
         = [\<lparr>req_method = GET, req_url = ''/status'', req_timeout = Some 1000,
             req_data = [], req_headers = []\<rparr>]
     \<and> count_list (requests (setup_run P (setup_mounted (setup_data here)) evs))
         \<lparr>req_method = GET, req_url = ''/status'', req_timeout = Some 1000,
          req_data = [], req_headers = []\<rparr> = 1
     \<and> load_settled P (Fulfilled r) s =
         (None, s\<lparr>max_virtual_knob_value := JStr k,
                   current_max_dac_value := field_of (data r) ''max_dac_value''\<rparr>)
     \<and> max_virtual_knob_value (snd (load_settled P (Fulfilled r) s))
         = max_virtual_knob_value (snd (load_settled P (Fulfilled r) s'))
     \<and> current_max_dac_value (snd (load_settled P (Fulfilled r) s))
         = current_max_dac_value (snd (load_settled P (Fulfilled r) s'))"
proof (intro conjI)
  show "setup_mounted s =
       s\<lparr>requests := requests s @
           [\<lparr>req_method = GET, req_url = ''/status'', req_timeout = Some 1000,
             req_data = [], req_headers = []\<rparr>],
         intervals := intervals s @
           [(500, \<lparr>req_method = GET, req_url = ''/status'', req_timeout = Some 450,
                   req_data = [], req_headers = []\<rparr>)]\<rparr>"
    by (simp add: setup_mounted_eq load_request_eq setup_poll_request_eq)
  show "take 1 (requests (setup_run P (setup_mounted (setup_data here)) evs))
         = [\<lparr>req_method = GET, req_url = ''/status'', req_timeout = Some 1000,
             req_data = [], req_headers = []\<rparr>]"
    unfolding load_request_eq [symmetric] by (rule mounted_first_request)
  show "count_list (requests (setup_run P (setup_mounted (setup_data here)) evs))
         \<lparr>req_method = GET, req_url = ''/status'', req_timeout = Some 1000,
          req_data = [], req_headers = []\<rparr> = 1"
    unfolding load_request_eq [symmetric] by (rule mounted_once_load_requests [OF assms(3)])
  show "load_settled P (Fulfilled r) s =
         (None, s\<lparr>max_virtual_knob_value := JStr k,
                   current_max_dac_value := field_of (data r) ''max_dac_value''\<rparr>)"
    by (rule load_fulfilled [OF assms(1,2)])
  show "max_virtual_knob_value (snd (load_settled P (Fulfilled r) s))
         = max_virtual_knob_value (snd (load_settled P (Fulfilled r) s'))"
    by (simp add: load_fulfilled [OF assms(1,2)])
  show "current_max_dac_value (snd (load_settled P (Fulfilled r) s))
         = current_max_dac_value (snd (load_settled P (Fulfilled r) s'))"
    by (simp add: load_fulfilled [OF assms(1,2)])
qed

theorem load_on_mount_witness:
  "\<not> nullish (data full_scale_status)
   \<and> knob_text reference_platform (JNum (Finite 255)) (JNum (Finite 8)) = Inr ''10''
   \<and> Mounted \<notin> set [TimerFired 0, PollSettled (Fulfilled half_scale_status), SubmitInvoked]
   \<and> requests (setup_run reference_platform (setup_mounted (setup_data ''/setup''))
         [TimerFired 0, PollSettled (Fulfilled half_scale_status), SubmitInvoked]) =
       [\<lparr>req_method = GET, req_url = ''/status'', req_timeout = Some 1000,
         req_data = [], req_headers = []\<rparr>,
        \<lparr>req_method = GET, req_url = ''/status'', req_timeout = Some 450,
         req_data = [], req_headers = []\<rparr>,
        \<lparr>req_method = POST, req_url = ''/setup'', req_timeout = None,
         req_data = [(''max_virtual_knob_value'', JNum (Finite 0))],
         req_headers = [(''Content-Type'', ''multipart/form-data'')]\<rparr>]
   \<and> count_list
         (requests (setup_run reference_platform (setup_mounted (setup_data ''/setup''))
            [TimerFired 0, PollSettled (Fulfilled half_scale_status), SubmitInvoked]))
         \<lparr>req_method = GET, req_url = ''/status'', req_timeout = Some 1000,
          req_data = [], req_headers = []\<rparr> = 1
   \<and> load_settled reference_platform (Fulfilled full_scale_status) (setup_data ''/setup'') =
       (None, \<lparr>requests = [], intervals = [], location_href = ''/setup'',
               max_virtual_knob_value = JStr ''10'',
               current_max_dac_value = JNum (Finite 255),
               error_message = JStr [], warning_message = JStr []\<rparr>)"
proof -
  have m: "Mounted \<notin> set [TimerFired 0, PollSettled (Fulfilled half_scale_status),
                          SubmitInvoked]"
    by simp
  note t = load_on_mount [OF full_scale_status_readable full_scale_status_knob_text m,
      of "setup_data ''/setup''" "''/setup''" "setup_data ''/setup''"]
  have q: "requests (setup_run reference_platform (setup_mounted (setup_data ''/setup''))
         [TimerFired 0, PollSettled (Fulfilled half_scale_status), SubmitInvoked]) =
       [\<lparr>req_method = GET, req_url = ''/status'', req_timeout = Some 1000,
         req_data = [], req_headers = []\<rparr>,
        \<lparr>req_method = GET, req_url = ''/status'', req_timeout = Some 450,
         req_data = [], req_headers = []\<rparr>,
        \<lparr>req_method = POST, req_url = ''/setup'', req_timeout = None,
         req_data = [(''max_virtual_knob_value'', JNum (Finite 0))],
         req_headers = [(''Content-Type'', ''multipart/form-data'')]\<rparr>]"
    by (simp add: setup_run_Cons setup_run_Nil setup_mounted_eq setup_data_def
        timer_fires_def load_request_eq setup_poll_request_eq
        setup_poll_settled_frame submitNewSettings_def reference_platform_def)
  have c: "count_list
         (requests (setup_run reference_platform (setup_mounted (setup_data ''/setup''))
            [TimerFired 0, PollSettled (Fulfilled half_scale_status), SubmitInvoked]))
         \<lparr>req_method = GET, req_url = ''/status'', req_timeout = Some 1000,
          req_data = [], req_headers = []\<rparr> = 1"
    by (rule t [THEN conjunct2, THEN conjunct2, THEN conjunct1])
  have l: "load_settled reference_platform (Fulfilled full_scale_status)
             (setup_data ''/setup'') =
       (None, \<lparr>requests = [], intervals = [], location_href = ''/setup'',
               max_virtual_knob_value = JStr ''10'',
               current_max_dac_value = JNum (Finite 255),
               error_message = JStr [], warning_message = JStr []\<rparr>)"
    using t [THEN conjunct2, THEN conjunct2, THEN conjunct2, THEN conjunct1]
    by (simp add: full_scale_status_fields setup_data_def)
  from full_scale_status_readable knob_text_full_scale m q c l show ?thesis
    by (intro conjI)
qed

text \<open>
  Two successful load responses that set neither field: the body \<open>null\<close>, whose
  property read raises, and a body whose \<open>max_dac_value\<close> the division cannot coerce to
  a number. In both \<open>error_message\<close> receives the failure text.
\<close>

theorem load_body_not_usable:
  "get_prop (data \<lparr>data = JNull\<rparr>) ''max_dac_value'' = Inl TypeError
   \<and> load_settled reference_platform (Fulfilled \<lparr>data = JNull\<rparr>) (setup_data ''/setup'') =
       (None, \<lparr>requests = [], intervals = [], location_href = ''/setup'',
               max_virtual_knob_value = JNum (Finite 0),
               current_max_dac_value = JNum (Finite 0),
               error_message = JStr ''Failed to communicate with server.'',
               warning_message = JStr []\<rparr>)
   \<and> js_div reference_platform (JObj 4 [(''toString'', JNum (Finite 1))])
         (JNum (Finite 255)) = Inl TypeError
   \<and> load_settled reference_platform (Fulfilled uncoercible_status) (setup_data ''/setup'') =
       (None, \<lparr>requests = [], intervals = [], location_href = ''/setup'',
               max_virtual_knob_value = JNum (Finite 0),
               current_max_dac_value = JNum (Finite 0),
               error_message = JStr ''Failed to communicate with server.'',
               warning_message = JStr []\<rparr>)"
proof (intro conjI)
  show "get_prop (data \<lparr>data = JNull\<rparr>) ''max_dac_value'' = Inl TypeError"
    by simp
  show "load_settled reference_platform (Fulfilled \<lparr>data = JNull\<rparr>)
          (setup_data ''/setup'') =
       (None, \<lparr>requests = [], intervals = [], location_href = ''/setup'',
               max_virtual_knob_value = JNum (Finite 0),
               current_max_dac_value = JNum (Finite 0),
               error_message = JStr ''Failed to communicate with server.'',
               warning_message = JStr []\<rparr>)"
    by (simp add: load_thrown [OF null_body_nullish] setup_data_def)
  show "js_div reference_platform (JObj 4 [(''toString'', JNum (Finite 1))])
         (JNum (Finite 255)) = Inl TypeError"
    by (simp add: reference_platform_def coerced_def and_then_def)
  show "load_settled reference_platform (Fulfilled uncoercible_status)
          (setup_data ''/setup'') =
       (None, \<lparr>requests = [], intervals = [], location_href = ''/setup'',
               max_virtual_knob_value = JNum (Finite 0),
               current_max_dac_value = JNum (Finite 0),
               error_message = JStr ''Failed to communicate with server.'',
               warning_message = JStr []\<rparr>)"
    by (simp add: load_uncoercible setup_data_def)
qed

section \<open>The warning latches; the stored converter value is the loaded one\<close>

text \<open>
  C9. From the initial data on, whatever happens on the setup page, \<open>warning_message\<close>
  is the empty string or the fixed warning text; and once it is the warning text it stays
  so through every later event (load, poll or POST settling, fulfilled or rejected).
\<close>

theorem warning_latches:
  "(warning_message (setup_run P (setup_data here) evs) = JStr []
      \<or> warning_message (setup_run P (setup_data here) evs) = JStr warning_text)
   \<and> (warning_message s = JStr warning_text \<longrightarrow>
        warning_message (setup_step P s ev) = JStr warning_text
        \<and> warning_message (setup_run P s evs) = JStr warning_text)"
proof -
  have "warning_message (setup_data here) = JStr []"
    by (simp add: setup_data_def)
  then have "warning_message (setup_run P (setup_data here) evs) = JStr []
      \<or> warning_message (setup_run P (setup_data here) evs) = JStr warning_text"
    by (intro setup_run_warning_values) simp
  moreover have "warning_message (setup_step P s ev) = JStr warning_text"
    if "warning_message s = JStr warning_text"
    using that setup_step_warning [of P s ev] by auto
  ultimately show ?thesis
    by (simp add: setup_run_warning_latched)
qed

theorem warning_latches_witness:
  "warning_message (snd (setup_poll_settled (Fulfilled full_scale_status)
        (setup_data ''/setup''))) = JStr warning_text
   \<and> warning_message
       (setup_run reference_platform
          (snd (setup_poll_settled (Fulfilled full_scale_status) (setup_data ''/setup'')))
          [LoadSettled (Fulfilled full_scale_status),
           PollSettled (Fulfilled full_scale_status),
           PollSettled (Rejected (AxiosError None)),
           SubmitInvoked,
           SubmitSettled (Fulfilled \<lparr>data = JStr ''ok''\<rparr>)]) = JStr warning_text"
  using warning_latches [of reference_platform "''/setup''"
      "[LoadSettled (Fulfilled full_scale_status),
        PollSettled (Fulfilled full_scale_status),
        PollSettled (Rejected (AxiosError None)),
        SubmitInvoked,
        SubmitSettled (Fulfilled \<lparr>data = JStr ''ok''\<rparr>)]"
      "snd (setup_poll_settled (Fulfilled full_scale_status) (setup_data ''/setup''))"]
  by (simp add: setup_poll_fulfilled [OF full_scale_status_readable]
      full_scale_status_fields setup_data_def strict_neq_def)

text \<open>
  C10, as the code has it. \<open>current_max_dac_value\<close> is written by the success callback
  of the load and by nothing else: not by the mounted hook, a timer, \<open>submitNewSettings\<close>,
  a settled poll, a settled POST or a failed load. So a poll (with a body that is neither
  \<open>null\<close> nor \<open>undefined\<close>) compares the polled \<open>max_dac_value\<close> with the stored
  value, never with the value of an earlier poll; and the stored value is the one the
  load stored once the load has succeeded, but the initial \<open>0.0\<close> as long as no load
  has settled, and still after a failed load.
\<close>

theorem stored_dac_value_written_by_load_only:
  "current_max_dac_value (setup_mounted s) = current_max_dac_value s
   \<and> current_max_dac_value (timer_fires tm s) = current_max_dac_value s
   \<and> current_max_dac_value (submitNewSettings P s) = current_max_dac_value s
   \<and> current_max_dac_value (snd (setup_poll_settled out s)) = current_max_dac_value s
   \<and> current_max_dac_value (snd (submit_settled out s)) = current_max_dac_value s
   \<and> current_max_dac_value (snd (load_settled P (Rejected e) s)) = current_max_dac_value s
   \<and> (\<not> list_ex is_load_settled evs \<longrightarrow>
        current_max_dac_value (setup_run P s evs) = current_max_dac_value s
        \<and> current_max_dac_value (setup_run P (setup_data here) evs) = JNum (Finite 0))
   \<and> (\<not> nullish (data r) \<longrightarrow>
        setup_poll_settled (Fulfilled r) s =
          (None,
           if strict_eq (current_max_dac_value s) (field_of (data r) ''max_dac_value'')
           then s else s\<lparr>warning_message := JStr warning_text\<rparr>))
   \<and> (\<not> list_ex is_load_settled evs \<and> \<not> nullish (data r) \<longrightarrow>
        setup_poll_settled (Fulfilled r) (setup_run P s evs) =
          (None,
           if strict_eq (current_max_dac_value s) (field_of (data r) ''max_dac_value'')
           then setup_run P s evs
           else (setup_run P s evs)\<lparr>warning_message := JStr warning_text\<rparr>))
   \<and> (\<not> nullish (data r0)
        \<and> knob_text P (field_of (data r0) ''max_dac_value'')
             (field_of (data r0) ''dac_bits'') = Inr k \<longrightarrow>
        current_max_dac_value (snd (load_settled P (Fulfilled r0) s))
          = field_of (data r0) ''max_dac_value'')"
proof -
  have init: "current_max_dac_value (setup_data here) = JNum (Finite 0)"
    by (simp add: setup_data_def)
  have load: "current_max_dac_value (snd (load_settled P (Fulfilled r0) s))
          = field_of (data r0) ''max_dac_value''"
    if "\<not> nullish (data r0)"
      and "knob_text P (field_of (data r0) ''max_dac_value'')
             (field_of (data r0) ''dac_bits'') = Inr k"
    by (simp add: load_fulfilled [OF that])
  show ?thesis
    by (simp add: setup_mounted_eq timer_fires_def submitNewSettings_def
        setup_poll_settled_frame submit_settled_frame load_rejected
        setup_run_stored_dac_value init setup_poll_fulfilled strict_neq_def load)
qed

theorem stored_dac_value_written_by_load_only_witness:
  "\<not> list_ex is_load_settled
       [TimerFired 0, PollSettled (Fulfilled half_scale_status), SubmitInvoked]
   \<and> \<not> nullish (data half_scale_status)
   \<and> \<not> nullish (data full_scale_status)
   \<and> knob_text reference_platform (JNum (Finite 255)) (JNum (Finite 8)) = Inr ''10''
   \<and> current_max_dac_value
       (snd (load_settled reference_platform (Fulfilled full_scale_status)
               (setup_mounted (setup_data ''/setup'')))) = JNum (Finite 255)
   \<and> current_max_dac_value
       (setup_run reference_platform
          (snd (load_settled reference_platform (Fulfilled full_scale_status)
                  (setup_mounted (setup_data ''/setup''))))
          [TimerFired 0, PollSettled (Fulfilled half_scale_status), SubmitInvoked])
       = JNum (Finite 255)
   \<and> setup_poll_settled (Fulfilled half_scale_status)
        (setup_run reference_platform
           (snd (load_settled reference_platform (Fulfilled full_scale_status)
                   (setup_mounted (setup_data ''/setup''))))
           [TimerFired 0, PollSettled (Fulfilled half_scale_status), SubmitInvoked])
       = (None,
          (setup_run reference_platform
             (snd (load_settled reference_platform (Fulfilled full_scale_status)
                     (setup_mounted (setup_data ''/setup''))))
             [TimerFired 0, PollSettled (Fulfilled half_scale_status), SubmitInvoked])
          \<lparr>warning_message := JStr warning_text\<rparr>)
   \<and> setup_poll_settled (Fulfilled full_scale_status)
        (setup_run reference_platform
           (snd (load_settled reference_platform (Fulfilled full_scale_status)
                   (setup_mounted (setup_data ''/setup''))))
           [TimerFired 0, PollSettled (Fulfilled half_scale_status), SubmitInvoked])
       = (None,
          setup_run reference_platform
            (snd (load_settled reference_platform (Fulfilled full_scale_status)
                    (setup_mounted (setup_data ''/setup''))))
            [TimerFired 0, PollSettled (Fulfilled half_scale_status), SubmitInvoked])"
  using stored_dac_value_written_by_load_only
      [of "snd (load_settled reference_platform (Fulfilled full_scale_status)
                  (setup_mounted (setup_data ''/setup'')))"
          "(500, setup_poll_request)" reference_platform "Rejected TypeError" TypeError
          "[TimerFired 0, PollSettled (Fulfilled half_scale_status), SubmitInvoked]"
          "''/setup''" half_scale_status full_scale_status "''10''"]
    stored_dac_value_written_by_load_only
      [of "snd (load_settled reference_platform (Fulfilled full_scale_status)
                  (setup_mounted (setup_data ''/setup'')))"
          "(500, setup_poll_request)" reference_platform "Rejected TypeError" TypeError
          "[TimerFired 0, PollSettled (Fulfilled half_scale_status), SubmitInvoked]"
          "''/setup''" full_scale_status full_scale_status "''10''"]
  by (simp add: full_scale_status_readable half_scale_status_readable
      full_scale_status_fields half_scale_status_max_dac_value knob_text_full_scale
      load_fulfilled [OF full_scale_status_readable full_scale_status_knob_text])

text \<open>
  The server's value is 255 throughout. A poll that settles before the load does is
  compared with the initial \<open>0.0\<close>, not with the value at page load, and raises the
  warning, which the later load does not take back; so does a poll after a load that
  failed.
\<close>

theorem poll_compares_initial_value:
  "current_max_dac_value
       (setup_run reference_platform (setup_data ''/setup'') [Mounted, TimerFired 0])
     = JNum (Finite 0)
   \<and> warning_message
       (setup_run reference_platform (setup_data ''/setup'')
          [Mounted, TimerFired 0, PollSettled (Fulfilled full_scale_status)])
     = JStr warning_text
   \<and> setup_run reference_platform (setup_data ''/setup'')
        [Mounted, TimerFired 0, PollSettled (Fulfilled full_scale_status),
         LoadSettled (Fulfilled full_scale_status)] =
       \<lparr>requests =
          [\<lparr>req_method = GET, req_url = ''/status'', req_timeout = Some 1000,
            req_data = [], req_headers = []\<rparr>,
           \<lparr>req_method = GET, req_url = ''/status'', req_timeout = Some 450,
            req_data = [], req_headers = []\<rparr>],
        intervals =
          [(500, \<lparr>req_method = GET, req_url = ''/status'', req_timeout = Some 450,
                  req_data = [], req_headers = []\<rparr>)],
        location_href = ''/setup'',
        max_virtual_knob_value = JStr ''10'',
        current_max_dac_value = JNum (Finite 255),
        error_message = JStr [],
        warning_message = JStr warning_text\<rparr>
   \<and> setup_run reference_platform (setup_data ''/setup'')
        [Mounted, LoadSettled (Rejected (AxiosError None)), TimerFired 0,
         PollSettled (Fulfilled full_scale_status)] =
       \<lparr>requests =
          [\<lparr>req_method = GET, req_url = ''/status'', req_timeout = Some 1000,
            req_data = [], req_headers = []\<rparr>,
           \<lparr>req_method = GET, req_url = ''/status'', req_timeout = Some 450,
            req_data = [], req_headers = []\<rparr>],
        intervals =
          [(500, \<lparr>req_method = GET, req_url = ''/status'', req_timeout = Some 450,
                  req_data = [], req_headers = []\<rparr>)],
        location_href = ''/setup'',
        max_virtual_knob_value = JNum (Finite 0),
        current_max_dac_value = JNum (Finite 0),
        error_message = JStr ''Failed to communicate with server.'',
        warning_message = JStr warning_text\<rparr>"
  by (simp add: setup_run_Cons setup_run_Nil setup_mounted_eq setup_data_def timer_fires_def
      load_request_eq setup_poll_request_eq
      setup_poll_fulfilled [OF full_scale_status_readable]
      load_fulfilled [OF full_scale_status_readable full_scale_status_knob_text]
      load_rejected generic_failure_message_def
      full_scale_status_fields strict_neq_def)

end
